theory Spec2Isabelle
  imports Complex_Main
begin

section \<open>JavaScript numbers\<close>

text \<open>
  The engine computes with JavaScript numbers. A finite number is modelled by a real:
  arithmetic on finite numbers is exact, the rounding error of the floating-point
  operations is not part of the model, except in the regression of the trend analyzer,
  where the rounding decides the result. The three values that are not finite are kept,
  because a division by zero produces them and every comparison with \<open>NaN\<close> is false.
  Observations hold finite numbers (the provider rounds every generated value), so sums
  and products of observation fields stay in \<^typ>\<open>real\<close>; only a division can leave it.
\<close>

datatype jsnum = Num real | NaN | PosInf | NegInf

definition js_div :: "real \<Rightarrow> real \<Rightarrow> jsnum" where
  \<comment> \<open>\<open>a / b\<close> for finite \<open>a\<close> and \<open>b\<close>; the sign of a zero divisor is not modelled.\<close>
  "js_div a b =
     (if b \<noteq> 0 then Num (a / b)
      else if a = 0 then NaN
      else if a > 0 then PosInf else NegInf)"

fun js_gt :: "jsnum \<Rightarrow> real \<Rightarrow> bool" where
  \<comment> \<open>\<open>x > c\<close> for a finite constant \<open>c\<close>\<close>
  "js_gt (Num x) c = (x > c)"
| "js_gt NaN c = False"
| "js_gt PosInf c = True"
| "js_gt NegInf c = False"

fun js_lt :: "jsnum \<Rightarrow> real \<Rightarrow> bool" where
  \<comment> \<open>\<open>x < c\<close> for a finite constant \<open>c\<close>\<close>
  "js_lt (Num x) c = (x < c)"
| "js_lt NaN c = False"
| "js_lt PosInf c = False"
| "js_lt NegInf c = True"

fun js_abs :: "jsnum \<Rightarrow> jsnum" where
  \<comment> \<open>\<open>Math.abs(x)\<close>\<close>
  "js_abs (Num x) = Num \<bar>x\<bar>"
| "js_abs NaN = NaN"
| "js_abs PosInf = PosInf"
| "js_abs NegInf = PosInf"

definition math_round :: "real \<Rightarrow> real" where
  \<comment> \<open>\<open>Math.round(x)\<close>: the nearest integer, a tie going up\<close>
  "math_round x = of_int \<lfloor>x + 1 / 2\<rfloor>"

fun round_to :: "real \<Rightarrow> jsnum \<Rightarrow> jsnum" where
  \<comment> \<open>\<open>Math.round(x * k) / k\<close> for a positive constant \<open>k\<close>\<close>
  "round_to k (Num x) = Num (math_round (x * k) / k)"
| "round_to k NaN = NaN"
| "round_to k PosInf = PosInf"
| "round_to k NegInf = NegInf"

section \<open>Data model\<close>

datatype risk = Low | Medium | High

datatype trend = Increasing | Decreasing | Stable

datatype intensity = Light | Moderate | Heavy | Extreme

datatype threatLevel = ThreatLow | ThreatMedium | ThreatHigh | ThreatCritical

type_synonym BoundingBox = "real \<times> real \<times> real \<times> real"

text \<open>
  Observations (\<open>OceanDataPoint\<close> and its extensions in \<open>earthdata-api.ts\<close>). The field
  \<open>timestamp\<close> holds the epoch milliseconds that \<open>new Date(point.timestamp).getTime()\<close>
  reads from the ISO string. The fields the engine never reads (\<open>latitude\<close>,
  \<open>longitude\<close>, \<open>unit\<close>, \<open>quality\<close>, \<open>source\<close>, \<open>depth\<close>, \<open>anomaly\<close>,
  \<open>concentration\<close>, \<open>gust\<close>, \<open>duration\<close>) are left out.
\<close>

record OceanDataPoint =
  timestamp :: int
  "value" :: real

type_synonym SSTData = OceanDataPoint

type_synonym SeaLevelData = OceanDataPoint

record ChlorophyllData = OceanDataPoint +
  bloomRisk :: risk

record WindData = OceanDataPoint +
  direction :: real
  speed :: real

record RainfallData = OceanDataPoint +
  intensity :: intensity
  accumulation :: real

record DataQuality =
  completeness :: real
  accuracy :: real

record SpatialCoverage =
  boundingBox :: BoundingBox
  resolution :: string

record Metadata =
  totalCount :: nat
  timeRange :: "string \<times> string"
  spatialCoverage :: SpatialCoverage
  dataQuality :: DataQuality

record 'a EarthdataResponse =
  data :: "'a list"
  metadata :: Metadata
  error :: "string option"

text \<open>The summary object that \<open>useOceanographicSummary\<close> builds.\<close>

record TrendedParameter =
  "value" :: jsnum
  unit :: string
  risk :: risk
  trend :: trend

record ChlorophyllParameter =
  "value" :: jsnum
  unit :: string
  risk :: risk
  bloomRisk :: risk

record WindParameter =
  speed :: jsnum
  unit :: string
  risk :: risk
  direction :: real

record RainfallParameter =
  total :: jsnum
  unit :: string
  risk :: risk
  intensity :: intensity

record Parameters =
  seaSurfaceTemperature :: TrendedParameter
  seaLevel :: TrendedParameter
  chlorophyll :: ChlorophyllParameter
  wind :: WindParameter
  rainfall :: RainfallParameter

record Location =
  boundingBox :: BoundingBox
  center :: "real \<times> real"

record SummaryQuality =
  sst :: DataQuality
  seaLevel :: DataQuality
  chlorophyll :: DataQuality
  wind :: DataQuality
  rainfall :: DataQuality

record OceanographicSummary =
  timestamp :: string
  location :: Location
  parameters :: Parameters
  overallRisk :: risk
  dataQuality :: SummaryQuality

section \<open>Per-parameter reduction (\<open>useOceanographicSummary\<close>)\<close>

text \<open>
  \<open>data.reduce((sum, point) => sum + point.value, 0) / data.length\<close>: a left fold from
  \<open>0\<close>, then a division by the length, which is \<open>0 / 0\<close> on an empty array.
\<close>

definition sstAvg :: "SSTData list \<Rightarrow> jsnum" where
  "sstAvg d =
     js_div (foldl (\<lambda>sum point. sum + OceanDataPoint.value point) 0 d) (real (length d))"

definition seaLevelAvg :: "SeaLevelData list \<Rightarrow> jsnum" where
  "seaLevelAvg d =
     js_div (foldl (\<lambda>sum point. sum + OceanDataPoint.value point) 0 d) (real (length d))"

definition chlorophyllAvg :: "ChlorophyllData list \<Rightarrow> jsnum" where
  "chlorophyllAvg d =
     js_div (foldl (\<lambda>sum point. sum + OceanDataPoint.value point) 0 d) (real (length d))"

definition windAvg :: "WindData list \<Rightarrow> jsnum" where
  "windAvg d =
     js_div (foldl (\<lambda>sum point. sum + WindData.speed point) 0 d) (real (length d))"

definition rainfallTotal :: "RainfallData list \<Rightarrow> real" where
  "rainfallTotal d = foldl (\<lambda>sum point. sum + RainfallData.accumulation point) 0 d"

definition sstRisk :: "jsnum \<Rightarrow> risk" where
  "sstRisk avg = (if js_gt avg 30 then High else if js_gt avg 28 then Medium else Low)"

definition seaLevelRisk :: "jsnum \<Rightarrow> risk" where
  "seaLevelRisk avg =
     (if js_gt (js_abs avg) 0.5 then High
      else if js_gt (js_abs avg) 0.3 then Medium else Low)"

definition chlorophyllRisk :: "jsnum \<Rightarrow> risk" where
  "chlorophyllRisk avg =
     (if js_gt avg 1.0 then High else if js_gt avg 0.5 then Medium else Low)"

definition windRisk :: "jsnum \<Rightarrow> risk" where
  "windRisk avg = (if js_gt avg 15 then High else if js_gt avg 10 then Medium else Low)"

definition rainfallRisk :: "real \<Rightarrow> risk" where
  "rainfallRisk tot = (if tot > 50 then High else if tot > 25 then Medium else Low)"

definition dataTrend :: "OceanDataPoint list \<Rightarrow> trend" where
  \<comment> \<open>the \<open>trend\<close> entry of \<open>seaSurfaceTemperature\<close> and of \<open>seaLevel\<close>; both indices
      are in range when the length exceeds 1\<close>
  "dataTrend d =
     (if length d > 1 then
        (if OceanDataPoint.value (d ! (length d - 1)) - OceanDataPoint.value (d ! 0) > 0
         then Increasing else Decreasing)
      else Stable)"

definition overallRiskOf :: "risk list \<Rightarrow> risk" where
  \<comment> \<open>the \<open>overallRisk\<close> entry, over the array of the five risks\<close>
  "overallRiskOf risks =
     (if length (filter (\<lambda>risk. risk = High) risks) > 2 then High
      else if length (filter (\<lambda>risk. risk = High) risks) > 0 then Medium else Low)"

section \<open>The summary (\<open>useOceanographicSummary\<close>)\<close>

text \<open>
  The body of the memo once the guard has passed. \<open>now\<close> is the ISO string of
  \<open>new Date()\<close>; the local constants \<open>sstAvg\<close>, \<open>sstRisk\<close>, ... are the
  \<open>let\<close>-bound \<open>sst_avg\<close>, \<open>sst_risk\<close>, ... and the unit strings are
  written in ASCII. \<open>data[0]?.f || dflt\<close> reads the first observation when there is one.
\<close>

definition buildSummary ::
  "string \<Rightarrow> BoundingBox \<Rightarrow> SSTData EarthdataResponse \<Rightarrow> SeaLevelData EarthdataResponse \<Rightarrow>
   ChlorophyllData EarthdataResponse \<Rightarrow> WindData EarthdataResponse \<Rightarrow>
   RainfallData EarthdataResponse \<Rightarrow> OceanographicSummary" where
  "buildSummary now defaultBbox sstData seaLevelData chlorophyllData windData rainfallData =
     (let sst_avg = sstAvg (data sstData);
          sea_avg = seaLevelAvg (data seaLevelData);
          chl_avg = chlorophyllAvg (data chlorophyllData);
          wind_avg = windAvg (data windData);
          rain_total = rainfallTotal (data rainfallData);
          sst_risk = sstRisk sst_avg;
          sea_risk = seaLevelRisk sea_avg;
          chl_risk = chlorophyllRisk chl_avg;
          wind_risk = windRisk wind_avg;
          rain_risk = rainfallRisk rain_total
      in \<lparr> OceanographicSummary.timestamp = now,
           location = \<lparr> Location.boundingBox = defaultBbox,
             center = (case defaultBbox of (b0, b1, b2, b3) \<Rightarrow> ((b0 + b2) / 2, (b1 + b3) / 2)) \<rparr>,
           parameters = \<lparr>
             seaSurfaceTemperature = \<lparr> TrendedParameter.value = round_to 100 sst_avg,
               TrendedParameter.unit = ''C'', TrendedParameter.risk = sst_risk,
               trend = dataTrend (data sstData) \<rparr>,
             Parameters.seaLevel = \<lparr> TrendedParameter.value = round_to 1000 sea_avg,
               TrendedParameter.unit = ''m'', TrendedParameter.risk = sea_risk,
               trend = dataTrend (data seaLevelData) \<rparr>,
             Parameters.chlorophyll = \<lparr> ChlorophyllParameter.value = round_to 1000 chl_avg,
               ChlorophyllParameter.unit = ''mg/m3'', ChlorophyllParameter.risk = chl_risk,
               ChlorophyllParameter.bloomRisk =
                 (case data chlorophyllData of [] \<Rightarrow> Low
                  | point # _ \<Rightarrow> ChlorophyllData.bloomRisk point) \<rparr>,
             Parameters.wind = \<lparr> WindParameter.speed = round_to 10 wind_avg,
               WindParameter.unit = ''m/s'', WindParameter.risk = wind_risk,
               WindParameter.direction =
                 (case data windData of [] \<Rightarrow> 0 | point # _ \<Rightarrow> WindData.direction point) \<rparr>,
             Parameters.rainfall = \<lparr> total = round_to 100 (Num rain_total),
               RainfallParameter.unit = ''mm'', RainfallParameter.risk = rain_risk,
               RainfallParameter.intensity =
                 (case data rainfallData of [] \<Rightarrow> Light
                  | point # _ \<Rightarrow> RainfallData.intensity point) \<rparr> \<rparr>,
           overallRisk =
             overallRiskOf [sst_risk, sea_risk, chl_risk, wind_risk, rain_risk],
           OceanographicSummary.dataQuality = \<lparr>
             sst = Metadata.dataQuality (metadata sstData),
             SummaryQuality.seaLevel = Metadata.dataQuality (metadata seaLevelData),
             SummaryQuality.chlorophyll = Metadata.dataQuality (metadata chlorophyllData),
             SummaryQuality.wind = Metadata.dataQuality (metadata windData),
             SummaryQuality.rainfall = Metadata.dataQuality (metadata rainfallData) \<rparr> \<rparr>)"

text \<open>
  The memo of \<open>useOceanographicSummary\<close>. Each of the five query results is
  \<open>undefined\<close> (here \<open>None\<close>) until its query has resolved. The guard
  \<open>!sstData?.data || ...\<close> is true for \<open>undefined\<close> only: an array, also the empty
  one, is truthy.
\<close>

definition useOceanographicSummary ::
  "string \<Rightarrow> BoundingBox option \<Rightarrow> SSTData EarthdataResponse option \<Rightarrow>
   SeaLevelData EarthdataResponse option \<Rightarrow> ChlorophyllData EarthdataResponse option \<Rightarrow>
   WindData EarthdataResponse option \<Rightarrow> RainfallData EarthdataResponse option \<Rightarrow>
   OceanographicSummary option" where
  "useOceanographicSummary now bbox sstData seaLevelData chlorophyllData windData
     rainfallData =
     (let defaultBbox = (case bbox of None \<Rightarrow> (18, 72, 20, 75) | Some b \<Rightarrow> b)
      in case sstData of None \<Rightarrow> None | Some sstData \<Rightarrow>
         (case seaLevelData of None \<Rightarrow> None | Some seaLevelData \<Rightarrow>
         (case chlorophyllData of None \<Rightarrow> None | Some chlorophyllData \<Rightarrow>
         (case windData of None \<Rightarrow> None | Some windData \<Rightarrow>
         (case rainfallData of None \<Rightarrow> None | Some rainfallData \<Rightarrow>
            Some (buildSummary now defaultBbox sstData seaLevelData chlorophyllData
                    windData rainfallData))))))"

section \<open>Threat assessment (\<open>useCoastalThreatAssessment\<close>)\<close>

record ThreatAssessment =
  threatScore :: int
  threatLevel :: threatLevel
  threatFactors :: "string list"
  recommendations :: "string list"
  timestamp :: string
  location :: Location
  parameters :: Parameters

text \<open>
  The three mutable locals \<open>threatScore\<close>, \<open>threatFactors\<close> and \<open>recommendations\<close>
  are passed as a state through the five \<open>if\<close> statements, in the order of the source.
\<close>

type_synonym threatState = "int \<times> string list \<times> string list"

definition assessThreat :: "bool \<Rightarrow> int \<Rightarrow> string \<Rightarrow> string \<Rightarrow> threatState \<Rightarrow> threatState" where
  \<comment> \<open>\<open>if (c) { threatScore += n; threatFactors.push(f); recommendations.push(r); }\<close>\<close>
  "assessThreat c n f r st =
     (case st of (score, factors, recs) \<Rightarrow>
        if c then (score + n, factors @ [f], recs @ [r]) else (score, factors, recs))"

definition threatStateOf :: "Parameters \<Rightarrow> threatState" where
  "threatStateOf ps =
     (let st = (0, [], []);
          st = assessThreat (TrendedParameter.risk (seaSurfaceTemperature ps) = High) 25
                 ''Elevated sea surface temperature''
                 ''Monitor for coral bleaching and marine heat waves'' st;
          st = assessThreat (TrendedParameter.risk (Parameters.seaLevel ps) = High) 30
                 ''Abnormal sea level variations''
                 ''Prepare for potential coastal flooding'' st;
          st = assessThreat (ChlorophyllParameter.risk (Parameters.chlorophyll ps) = High) 20
                 ''High chlorophyll concentration''
                 ''Monitor for harmful algal blooms'' st;
          st = assessThreat (WindParameter.risk (Parameters.wind ps) = High) 15
                 ''High wind speeds''
                 ''Prepare for storm conditions'' st;
          st = assessThreat (RainfallParameter.risk (Parameters.rainfall ps) = High) 20
                 ''Heavy rainfall''
                 ''Monitor for runoff and water quality issues'' st
      in st)"

definition threatLevelOf :: "int \<Rightarrow> threatLevel" where
  "threatLevelOf score =
     (if score \<ge> 80 then ThreatCritical
      else if score \<ge> 60 then ThreatHigh
      else if score \<ge> 30 then ThreatMedium
      else ThreatLow)"

definition useCoastalThreatAssessment :: "OceanographicSummary option \<Rightarrow> ThreatAssessment option" where
  "useCoastalThreatAssessment oceanSummary =
     (case oceanSummary of
        None \<Rightarrow> None
      | Some s \<Rightarrow>
          (case threatStateOf (OceanographicSummary.parameters s) of
             (score, factors, recs) \<Rightarrow>
               Some \<lparr> threatScore = score,
                      threatLevel = threatLevelOf score,
                      threatFactors = factors,
                      recommendations = recs,
                      ThreatAssessment.timestamp = OceanographicSummary.timestamp s,
                      ThreatAssessment.location = OceanographicSummary.location s,
                      ThreatAssessment.parameters = OceanographicSummary.parameters s \<rparr>))"

section \<open>Historical trends (\<open>useHistoricalTrends\<close>)\<close>

record Statistics =
  minimum :: real
  maximum :: real
  average :: jsnum
  trend :: trend
  slope :: jsnum
  dataPoints :: nat

text \<open>
  The result of the analyzer. Its entry \<open>data\<close> (the selected series, handed on
  unchanged) is left out: its element type depends on the parameter.
\<close>

record TrendResult =
  parameter :: string
  timeRange :: "string \<times> string"
  statistics :: Statistics
  metadata :: Metadata

text \<open>
  What the engine itself throws: \<open>RangeError\<close> when a call is given more arguments
  than the engine accepts, \<open>TypeError\<close> when a property of \<open>undefined\<close> is read.
\<close>

datatype jsError = RangeError | TypeError

text \<open>
  In the regression the timestamps are epoch milliseconds (about \<open>1.7e12\<close>): their
  squares exceed \<open>2^53\<close> and the divisor is a difference of nearly equal numbers, so the
  rounding of each floating-point operation decides the result. Here it is modelled:
  \<open>fl64\<close> rounds a real to the nearest binary64 number, a tie going to the even
  significand. The exponent range is taken as unbounded (no overflow to \<open>Infinity\<close>,
  no subnormal numbers); the magnitudes of this engine are far from both ends.
\<close>

definition round_ties_even :: "real \<Rightarrow> int" where
  "round_ties_even y =
     (let f = \<lfloor>y\<rfloor>; r = y - of_int f
      in if r < 1 / 2 then f else if r > 1 / 2 then f + 1 else if even f then f else f + 1)"

definition fl64 :: "real \<Rightarrow> real" where
  "fl64 x =
     (if x = 0 then 0
      else (let u = 2 powr of_int (\<lfloor>log 2 \<bar>x\<bar>\<rfloor> - 52)
            in of_int (round_ties_even (x / u)) * u))"

definition fl_div :: "real \<Rightarrow> real \<Rightarrow> jsnum" where
  \<comment> \<open>\<open>a / b\<close> on binary64 numbers; the sign of a zero divisor is not modelled.\<close>
  "fl_div a b =
     (if b \<noteq> 0 then Num (fl64 (a / b))
      else if a = 0 then NaN
      else if a > 0 then PosInf else NegInf)"

fun round_to64 :: "real \<Rightarrow> jsnum \<Rightarrow> jsnum" where
  \<comment> \<open>\<open>Math.round(x * k) / k\<close> on binary64 numbers, for a positive constant \<open>k\<close>\<close>
  "round_to64 k (Num x) = Num (fl64 (math_round (fl64 (x * k)) / k))"
| "round_to64 k NaN = NaN"
| "round_to64 k PosInf = PosInf"
| "round_to64 k NegInf = NegInf"

text \<open>
  The simple linear regression of the source, every operation rounded. \<open>sumXY\<close> is the
  fold that reads \<open>values[i]\<close> at the index of the timestamp; both arrays are maps of
  the same series, so the index is in range.
\<close>

definition regressionSlope :: "real list \<Rightarrow> real list \<Rightarrow> jsnum" where
  "regressionSlope timestamps values =
     (let n = real (length values);
          sumX = foldl (\<lambda>sum t. fl64 (sum + t)) 0 timestamps;
          sumY = foldl (\<lambda>sum v. fl64 (sum + v)) 0 values;
          sumXY = foldl (\<lambda>sum (t, i). fl64 (sum + fl64 (t * values ! i))) 0
                    (zip timestamps [0..<length timestamps]);
          sumXX = foldl (\<lambda>sum t. fl64 (sum + fl64 (t * t))) 0 timestamps
      in fl_div (fl64 (fl64 (n * sumXY) - fl64 (sumX * sumY)))
                (fl64 (fl64 (n * sumXX) - fl64 (sumX * sumX))))"

definition slopeTrend :: "jsnum \<Rightarrow> trend" where
  "slopeTrend m =
     (if js_gt m 0.001 then Increasing else if js_lt m (- 0.001) then Decreasing else Stable)"

text \<open>
  The memo of \<open>useHistoricalTrends\<close> after its \<open>switch\<close> has selected the response
  \<open>d\<close>; \<open>pointValue\<close> is \<open>point.speed\<close> for the parameter \<open>wind\<close> and
  \<open>point.value\<close> otherwise. \<open>Math.min(...values)\<close> and \<open>Math.max(...values)\<close>
  pass every element of the series as an argument of its own; \<open>argLimit\<close> is the
  number of arguments that the engine accepts in one call (it depends on the engine and
  its stack), beyond which the call throws \<open>RangeError\<close> and the memo returns nothing.
\<close>

definition historicalTrends ::
  "nat \<Rightarrow> string \<Rightarrow> string \<times> string \<Rightarrow> ('a OceanDataPoint_scheme \<Rightarrow> real) \<Rightarrow>
   'a OceanDataPoint_scheme EarthdataResponse option \<Rightarrow> jsError + TrendResult option" where
  "historicalTrends argLimit param window pointValue d =
     (case d of
        None \<Rightarrow> Inr None
      | Some d \<Rightarrow>
          if length (data d) = 0 then Inr None
          else
            (let values = map pointValue (data d);
                 timestamps = map (\<lambda>point. real_of_int (OceanDataPoint.timestamp point)) (data d);
                 n = length values;
                 m = regressionSlope timestamps values
             in if length values > argLimit then Inl RangeError
                else Inr (Some \<lparr> parameter = param,
                  TrendResult.timeRange = window,
                  statistics = \<lparr>
                    minimum = Min (set values),
                    maximum = Max (set values),
                    average = fl_div (foldl (\<lambda>sum v. fl64 (sum + v)) 0 values) (real n),
                    Statistics.trend = slopeTrend m,
                    slope = round_to64 1000000 m,
                    dataPoints = n \<rparr>,
                  TrendResult.metadata = EarthdataResponse.metadata d \<rparr>)))"

text \<open>
  \<open>window\<close> is the pair of ISO strings \<open>(startDate, endDate)\<close> computed from the clock
  and \<open>days\<close>. A parameter outside the five names leaves \<open>data\<close> at \<open>null\<close>.
\<close>

definition useHistoricalTrends ::
  "nat \<Rightarrow> string \<Rightarrow> string \<times> string \<Rightarrow> SSTData EarthdataResponse option \<Rightarrow>
   SeaLevelData EarthdataResponse option \<Rightarrow> ChlorophyllData EarthdataResponse option \<Rightarrow>
   WindData EarthdataResponse option \<Rightarrow> RainfallData EarthdataResponse option \<Rightarrow>
   jsError + TrendResult option" where
  "useHistoricalTrends argLimit param window sstData seaLevelData chlorophyllData windData
     rainfallData =
     (if param = ''sst'' then historicalTrends argLimit param window OceanDataPoint.value sstData
      else if param = ''seaLevel'' then
        historicalTrends argLimit param window OceanDataPoint.value seaLevelData
      else if param = ''chlorophyll'' then
        historicalTrends argLimit param window OceanDataPoint.value chlorophyllData
      else if param = ''wind'' then
        historicalTrends argLimit param window WindData.speed windData
      else if param = ''rainfall'' then
        historicalTrends argLimit param window OceanDataPoint.value rainfallData
      else Inr None)"

section \<open>The data provider (\<open>EarthdataAPIService\<close>)\<close>

record EarthdataDataset =
  id' :: string
  name :: string
  description :: string
  variables :: "string list"
  temporalResolution :: string
  spatialResolution :: string
  lastUpdated :: string

record QueryParams =
  startDate :: string
  endDate :: string
  boundingBox :: "BoundingBox option"
  dataset :: "string option"

text \<open>What a \<open>throw\<close> carries: an \<open>Error\<close> with its message, or any other value.\<close>

datatype thrown = Error string | NotAnError

text \<open>
  The registry that the constructor builds; \<open>now\<close> is the ISO string of the clock.
  The degree sign of three resolution strings is written \<open>deg\<close>.
\<close>

definition initializeDatasets :: "string \<Rightarrow> (string \<rightharpoonup> EarthdataDataset)" where
  "initializeDatasets now =
     [''MUR_SST'' \<mapsto> \<lparr> id' = ''MUR_SST'', name = ''MUR Sea Surface Temperature'',
        description = ''Multi-scale Ultra-high Resolution Sea Surface Temperature'',
        variables = [''sst'', ''sst_anomaly''], temporalResolution = ''daily'',
        spatialResolution = ''1km'', lastUpdated = now \<rparr>,
      ''GHRSST_L4'' \<mapsto> \<lparr> id' = ''GHRSST_L4'', name = ''GHRSST Level 4 SST'',
        description = ''Group for High Resolution Sea Surface Temperature Level 4'',
        variables = [''sst'', ''quality''], temporalResolution = ''daily'',
        spatialResolution = ''5km'', lastUpdated = now \<rparr>,
      ''AVISO_SLA'' \<mapsto> \<lparr> id' = ''AVISO_SLA'', name = ''AVISO Sea Level Anomaly'',
        description =
          ''Archiving, Validation and Interpretation of Satellite Oceanographic data'',
        variables = [''sla'', ''adt'', ''ugos'', ''vgos''], temporalResolution = ''daily'',
        spatialResolution = ''0.25 deg'', lastUpdated = now \<rparr>,
      ''JASON_SLA'' \<mapsto> \<lparr> id' = ''JASON_SLA'', name = ''Jason Sea Level Anomaly'',
        description = ''Jason satellite altimetry sea level data'',
        variables = [''sla'', ''wind_speed'', ''wave_height''], temporalResolution = ''10-day'',
        spatialResolution = ''0.2 deg'', lastUpdated = now \<rparr>,
      ''OCEANCOLOR_CHL'' \<mapsto> \<lparr> id' = ''OCEANCOLOR_CHL'', name = ''Ocean Color Chlorophyll'',
        description = ''NASA Ocean Color chlorophyll-a concentration'',
        variables = [''chlor_a'', ''chlor_a_anom'', ''quality''], temporalResolution = ''8-day'',
        spatialResolution = ''4km'', lastUpdated = now \<rparr>,
      ''VIIRS_CHL'' \<mapsto> \<lparr> id' = ''VIIRS_CHL'', name = ''VIIRS Chlorophyll'',
        description = ''Visible Infrared Imaging Radiometer Suite chlorophyll data'',
        variables = [''chlor_a'', ''nflh'', ''quality''], temporalResolution = ''daily'',
        spatialResolution = ''750m'', lastUpdated = now \<rparr>,
      ''ASCAT_WIND'' \<mapsto> \<lparr> id' = ''ASCAT_WIND'', name = ''ASCAT Wind'',
        description = ''Advanced Scatterometer wind vector data'',
        variables = [''wind_speed'', ''wind_direction'', ''quality''],
        temporalResolution = ''daily'', spatialResolution = ''25km'', lastUpdated = now \<rparr>,
      ''CCMP_WIND'' \<mapsto> \<lparr> id' = ''CCMP_WIND'', name = ''CCMP Wind'',
        description = ''Cross-Calibrated Multi-Platform wind data'',
        variables = [''uwnd'', ''vwnd'', ''wind_speed'', ''quality''],
        temporalResolution = ''6-hourly'', spatialResolution = ''0.25 deg'',
        lastUpdated = now \<rparr>,
      ''IMERG_RAIN'' \<mapsto> \<lparr> id' = ''IMERG_RAIN'', name = ''IMERG Rainfall'',
        description = ''Integrated Multi-satellitE Retrievals for GPM rainfall'',
        variables = [''precipitation'', ''precipitation_quality'', ''latent_heat''],
        temporalResolution = ''30-minute'', spatialResolution = ''0.1 deg'',
        lastUpdated = now \<rparr>,
      ''TRMM_RAIN'' \<mapsto> \<lparr> id' = ''TRMM_RAIN'', name = ''TRMM Rainfall'',
        description = ''Tropical Rainfall Measuring Mission precipitation data'',
        variables = [''precipitation'', ''precipitation_quality'', ''latent_heat''],
        temporalResolution = ''3-hourly'', spatialResolution = ''0.25 deg'',
        lastUpdated = now \<rparr>]"

text \<open>
  The five fetch methods share one body and differ in the primary dataset, the mock
  generator and the two quality constants. A \<open>throw\<close> that leaves the method (the
  rejected promise of the \<open>async\<close> method) is \<open>Inl\<close>. The generator draws
  \<open>Math.random()\<close>, so its outcome for the given parameters is an argument: the array it
  returns, or what it throws inside the \<open>try\<close> block. \<open>params.dataset || primary\<close>
  takes the primary dataset for \<open>undefined\<close> and for the empty string.
\<close>

definition getData ::
  "string \<Rightarrow> real \<Rightarrow> real \<Rightarrow> (string \<rightharpoonup> EarthdataDataset) \<Rightarrow> QueryParams \<Rightarrow>
   (QueryParams \<Rightarrow> thrown + 'a list) \<Rightarrow> thrown + 'a EarthdataResponse" where
  "getData primary compl acc datasets params generateMockData =
     (let ds = (case dataset params of None \<Rightarrow> primary
                | Some s \<Rightarrow> if s = [] then primary else s)
      in case datasets ds of
           None \<Rightarrow> Inl (Error (''Dataset '' @ ds @ '' not found''))
         | Some datasetInfo \<Rightarrow>
             (case generateMockData params of
                Inr mockData \<Rightarrow>
                  Inr \<lparr> data = mockData,
                        EarthdataResponse.metadata = \<lparr>
                          totalCount = length mockData,
                          Metadata.timeRange = (startDate params, endDate params),
                          spatialCoverage = \<lparr>
                            SpatialCoverage.boundingBox =
                              (case QueryParams.boundingBox params of
                                 None \<Rightarrow> (- 90, - 180, 90, 180) | Some b \<Rightarrow> b),
                            resolution = spatialResolution datasetInfo \<rparr>,
                          Metadata.dataQuality = \<lparr> completeness = compl, accuracy = acc \<rparr> \<rparr>,
                        error = None \<rparr>
              | Inl e \<Rightarrow>
                  Inr \<lparr> data = [],
                        EarthdataResponse.metadata = \<lparr>
                          totalCount = 0,
                          Metadata.timeRange = (startDate params, endDate params),
                          spatialCoverage = \<lparr>
                            SpatialCoverage.boundingBox = (0, 0, 0, 0),
                            resolution = ''unknown'' \<rparr>,
                          Metadata.dataQuality = \<lparr> completeness = 0, accuracy = 0 \<rparr> \<rparr>,
                        error = Some (case e of Error message \<Rightarrow> message
                                      | NotAnError \<Rightarrow> ''Unknown error'') \<rparr>))"

definition getSSTData ::
  "(string \<rightharpoonup> EarthdataDataset) \<Rightarrow> QueryParams \<Rightarrow> (QueryParams \<Rightarrow> thrown + SSTData list) \<Rightarrow>
   thrown + SSTData EarthdataResponse" where
  "getSSTData = getData ''MUR_SST'' 0.95 0.92"

definition getSeaLevelData ::
  "(string \<rightharpoonup> EarthdataDataset) \<Rightarrow> QueryParams \<Rightarrow>
   (QueryParams \<Rightarrow> thrown + SeaLevelData list) \<Rightarrow> thrown + SeaLevelData EarthdataResponse" where
  "getSeaLevelData = getData ''AVISO_SLA'' 0.88 0.89"

definition getChlorophyllData ::
  "(string \<rightharpoonup> EarthdataDataset) \<Rightarrow> QueryParams \<Rightarrow>
   (QueryParams \<Rightarrow> thrown + ChlorophyllData list) \<Rightarrow>
   thrown + ChlorophyllData EarthdataResponse" where
  "getChlorophyllData = getData ''OCEANCOLOR_CHL'' 0.82 0.85"

definition getWindData ::
  "(string \<rightharpoonup> EarthdataDataset) \<Rightarrow> QueryParams \<Rightarrow> (QueryParams \<Rightarrow> thrown + WindData list) \<Rightarrow>
   thrown + WindData EarthdataResponse" where
  "getWindData = getData ''ASCAT_WIND'' 0.91 0.87"

definition getRainfallData ::
  "(string \<rightharpoonup> EarthdataDataset) \<Rightarrow> QueryParams \<Rightarrow>
   (QueryParams \<Rightarrow> thrown + RainfallData list) \<Rightarrow> thrown + RainfallData EarthdataResponse" where
  "getRainfallData = getData ''IMERG_RAIN'' 0.94 0.90"

section \<open>The fallback generator (\<open>generateDynamicFallbackData\<close>)\<close>

text \<open>
  An entry of the table \<open>baseData\<close>. Each entry carries one property of its own
  (\<open>anomaly\<close>, \<open>trendValue\<close>, \<open>bloomRisk\<close>, \<open>direction\<close> or \<open>intensity\<close>); a
  property that an entry does not have is \<open>None\<close>.
\<close>

record BaseData =
  baseValue :: real
  unit :: string
  risk :: risk
  trend :: trend
  quality :: real
  range' :: "real \<times> real"
  anomaly :: "real option"
  trendValue :: "real option"
  bloomRisk :: "risk option"
  direction :: "real option"
  intensity :: "intensity option"

record FallbackData =
  "value" :: real
  unit :: string
  risk :: risk
  trend :: trend
  quality :: real
  anomaly :: "real option"
  trendValue :: "real option"
  bloomRisk :: "risk option"
  direction :: "real option"
  intensity :: "intensity option"

text \<open>
  The own properties of the object literal \<open>baseData\<close>.
\<close>

definition baseData :: "string \<rightharpoonup> BaseData" where
  "baseData =
     [''sst'' \<mapsto> \<lparr> baseValue = 28.5, BaseData.unit = ''C'', BaseData.risk = Low,
        BaseData.trend = Stable, BaseData.quality = 0.85, range' = (25, 32),
        BaseData.anomaly = Some 0.5, BaseData.trendValue = None, BaseData.bloomRisk = None,
        BaseData.direction = None, BaseData.intensity = None \<rparr>,
      ''seaLevel'' \<mapsto> \<lparr> baseValue = 0.12, BaseData.unit = ''m'', BaseData.risk = Low,
        BaseData.trend = Stable, BaseData.quality = 0.90, range' = (- 0.2, 0.3),
        BaseData.anomaly = None, BaseData.trendValue = Some 0.003, BaseData.bloomRisk = None,
        BaseData.direction = None, BaseData.intensity = None \<rparr>,
      ''chlorophyll'' \<mapsto> \<lparr> baseValue = 0.8, BaseData.unit = ''mg/m3'', BaseData.risk = Low,
        BaseData.trend = Stable, BaseData.quality = 0.75, range' = (0.1, 2.0),
        BaseData.anomaly = None, BaseData.trendValue = None, BaseData.bloomRisk = Some Low,
        BaseData.direction = None, BaseData.intensity = None \<rparr>,
      ''wind'' \<mapsto> \<lparr> baseValue = 12.5, BaseData.unit = ''m/s'', BaseData.risk = Low,
        BaseData.trend = Stable, BaseData.quality = 0.88, range' = (5, 25),
        BaseData.anomaly = None, BaseData.trendValue = None, BaseData.bloomRisk = None,
        BaseData.direction = Some 180, BaseData.intensity = None \<rparr>,
      ''rainfall'' \<mapsto> \<lparr> baseValue = 2.1, BaseData.unit = ''mm'', BaseData.risk = Low,
        BaseData.trend = Stable, BaseData.quality = 0.82, range' = (0, 10),
        BaseData.anomaly = None, BaseData.trendValue = None, BaseData.bloomRisk = None,
        BaseData.direction = None, BaseData.intensity = Some Light \<rparr>]"

definition clampedValue :: "BaseData \<Rightarrow> real \<Rightarrow> real" where
  \<comment> \<open>\<open>random\<close> is the first \<open>Math.random()\<close> of the call, a number in \<open>[0, 1)\<close>\<close>
  "clampedValue d random =
     (let randomFactor = 0.9 + random * 0.2;
          randomValue = baseValue d * randomFactor
      in max (fst (range' d)) (min (snd (range' d)) randomValue))"

definition dynamicRisk :: "string \<Rightarrow> real \<Rightarrow> risk" where
  \<comment> \<open>\<open>let dynamicRisk = 'low'\<close> and the four \<open>if\<close> statements that assign to it\<close>
  "dynamicRisk param v =
     (let r = Low;
          r = (if param = ''sst'' \<and> v > 30 then Medium else r);
          r = (if param = ''wind'' \<and> v > 20 then Medium else r);
          r = (if param = ''rainfall'' \<and> v > 5 then Medium else r);
          r = (if param = ''chlorophyll'' \<and> v > 1.5 then Medium else r)
      in r)"

text \<open>
  \<open>baseData[param]\<close> also finds what the object literal inherits from
  \<open>Object.prototype\<close>. Such a value is truthy and passes \<open>if (!data)\<close>; it has no
  property \<open>range\<close>, so \<open>data.range.min\<close> reads a property of \<open>undefined\<close> and
  throws \<open>TypeError\<close>.
\<close>

definition objectPrototypeKeys :: "string list" where
  "objectPrototypeKeys =
     [''constructor'', ''hasOwnProperty'', ''isPrototypeOf'', ''propertyIsEnumerable'',
      ''toLocaleString'', ''toString'', ''valueOf'', ''__proto__'', ''__defineGetter__'',
      ''__defineSetter__'', ''__lookupGetter__'', ''__lookupSetter__'']"

definition generateDynamicFallbackData ::
  "string \<Rightarrow> real \<Rightarrow> real \<Rightarrow> jsError + FallbackData option" where
  \<comment> \<open>\<open>random1\<close> and \<open>random2\<close> are the two \<open>Math.random()\<close> draws, in their order\<close>
  "generateDynamicFallbackData param random1 random2 =
     (case baseData param of
        None \<Rightarrow> if param \<in> set objectPrototypeKeys then Inl TypeError else Inr None
      | Some d \<Rightarrow>
          (let v = clampedValue d random1;
               qualityVariation = 0.05;
               dynamicQuality =
                 max 0.7 (min 0.95 (BaseData.quality d + (random2 - 0.5) * qualityVariation))
           in Inr (Some \<lparr> FallbackData.value = math_round (v * 100) / 100,
                FallbackData.unit = BaseData.unit d,
                FallbackData.risk = dynamicRisk param v,
                FallbackData.trend = BaseData.trend d,
                FallbackData.quality = dynamicQuality,
                FallbackData.anomaly = (if param = ''sst'' then BaseData.anomaly d else None),
                FallbackData.trendValue =
                  (if param = ''seaLevel'' then BaseData.trendValue d else None),
                FallbackData.bloomRisk =
                  (if param = ''chlorophyll'' then BaseData.bloomRisk d else None),
                FallbackData.direction =
                  (if param = ''wind'' then BaseData.direction d else None),
                FallbackData.intensity =
                  (if param = ''rainfall'' then BaseData.intensity d else None) \<rparr>)))"

text \<open>
  For the comparison with the fallback generator: the tier that the summary assigns to
  a value \<open>v\<close> of the parameter \<open>param\<close>, by the five risk expressions above.
\<close>

definition summaryRisk :: "string \<Rightarrow> real \<Rightarrow> risk" where
  "summaryRisk param v =
     (if param = ''sst'' then sstRisk (Num v)
      else if param = ''seaLevel'' then seaLevelRisk (Num v)
      else if param = ''chlorophyll'' then chlorophyllRisk (Num v)
      else if param = ''wind'' then windRisk (Num v)
      else rainfallRisk v)"

section \<open>Auxiliary facts\<close>


lemma length_filter_High: "length (filter (\<lambda>risk. risk = High) rs) = count_list rs High"
  by (induction rs) simp_all

lemma overallRiskOf_count:
  "overallRiskOf rs =
     (if count_list rs High > 2 then High else if count_list rs High > 0 then Medium else Low)"
  by (simp add: overallRiskOf_def length_filter_High)

lemma useOceanographicSummary_Some:
  assumes "useOceanographicSummary now bbox a b c d e = Some s"
  shows "\<exists>bb a' b' c' d' e'. a = Some a' \<and> b = Some b' \<and> c = Some c' \<and> d = Some d' \<and> e = Some e'
           \<and> s = buildSummary now bb a' b' c' d' e'"
  using assms
  by (auto simp add: useOceanographicSummary_def Let_def split: option.splits)

lemma buildSummary_overallRisk:
  "overallRisk (buildSummary now bb a b c d e) =
     overallRiskOf
       [TrendedParameter.risk (seaSurfaceTemperature (OceanographicSummary.parameters (buildSummary now bb a b c d e))),
        TrendedParameter.risk (Parameters.seaLevel (OceanographicSummary.parameters (buildSummary now bb a b c d e))),
        ChlorophyllParameter.risk (Parameters.chlorophyll (OceanographicSummary.parameters (buildSummary now bb a b c d e))),
        WindParameter.risk (Parameters.wind (OceanographicSummary.parameters (buildSummary now bb a b c d e))),
        RainfallParameter.risk (Parameters.rainfall (OceanographicSummary.parameters (buildSummary now bb a b c d e)))]"
  by (simp add: buildSummary_def Let_def)

lemma threatStateOf_eq:
  "threatStateOf ps =
     ((if TrendedParameter.risk (seaSurfaceTemperature ps) = High then 25 else 0)
      + (if TrendedParameter.risk (Parameters.seaLevel ps) = High then 30 else 0)
      + (if ChlorophyllParameter.risk (Parameters.chlorophyll ps) = High then 20 else 0)
      + (if WindParameter.risk (Parameters.wind ps) = High then 15 else 0)
      + (if RainfallParameter.risk (Parameters.rainfall ps) = High then 20 else 0),
      (if TrendedParameter.risk (seaSurfaceTemperature ps) = High
       then [''Elevated sea surface temperature''] else [])
      @ (if TrendedParameter.risk (Parameters.seaLevel ps) = High
         then [''Abnormal sea level variations''] else [])
      @ (if ChlorophyllParameter.risk (Parameters.chlorophyll ps) = High
         then [''High chlorophyll concentration''] else [])
      @ (if WindParameter.risk (Parameters.wind ps) = High then [''High wind speeds''] else [])
      @ (if RainfallParameter.risk (Parameters.rainfall ps) = High then [''Heavy rainfall''] else []),
      (if TrendedParameter.risk (seaSurfaceTemperature ps) = High
       then [''Monitor for coral bleaching and marine heat waves''] else [])
      @ (if TrendedParameter.risk (Parameters.seaLevel ps) = High
         then [''Prepare for potential coastal flooding''] else [])
      @ (if ChlorophyllParameter.risk (Parameters.chlorophyll ps) = High
         then [''Monitor for harmful algal blooms''] else [])
      @ (if WindParameter.risk (Parameters.wind ps) = High
         then [''Prepare for storm conditions''] else [])
      @ (if RainfallParameter.risk (Parameters.rainfall ps) = High
         then [''Monitor for runoff and water quality issues''] else []))"
  by (simp add: threatStateOf_def assessThreat_def Let_def)

lemma useCoastalThreatAssessment_Some:
  assumes "useCoastalThreatAssessment (Some s) = Some a"
  shows "threatScore a = fst (threatStateOf (OceanographicSummary.parameters s))"
    and "threatFactors a = fst (snd (threatStateOf (OceanographicSummary.parameters s)))"
    and "recommendations a = snd (snd (threatStateOf (OceanographicSummary.parameters s)))"
    and "threatLevel a = threatLevelOf (threatScore a)"
  using assms
  by (auto simp add: useCoastalThreatAssessment_def split: prod.splits)

lemma useCoastalThreatAssessment_defined:
  "\<exists>a. useCoastalThreatAssessment (Some s) = Some a"
  by (cases "threatStateOf (OceanographicSummary.parameters s)")
     (simp add: useCoastalThreatAssessment_def)

lemma getData_unknown:
  assumes "dataset params = Some ds" and "ds \<noteq> []" and "datasets ds = None"
  shows "getData primary compl acc datasets params g = Inl (Error (''Dataset '' @ ds @ '' not found''))"
  using assms by (simp add: getData_def)

lemma getData_generator_throws:
  assumes "dataset params = Some ds" and "ds \<noteq> []" and "datasets ds = Some info"
    and "g params = Inl e"
  shows "getData primary compl acc datasets params g =
           Inr \<lparr> data = [],
                 EarthdataResponse.metadata = \<lparr>
                   totalCount = 0,
                   Metadata.timeRange = (startDate params, endDate params),
                   spatialCoverage = \<lparr> SpatialCoverage.boundingBox = (0, 0, 0, 0),
                                       resolution = ''unknown'' \<rparr>,
                   Metadata.dataQuality = \<lparr> completeness = 0, accuracy = 0 \<rparr> \<rparr>,
                 error = Some (case e of Error message \<Rightarrow> message
                               | NotAnError \<Rightarrow> ''Unknown error'') \<rparr>"
  using assms by (simp add: getData_def)

lemma abs_pos_of_pow_le:
  assumes "(2::real) ^ k \<le> \<bar>x\<bar>"
  shows "0 < \<bar>x\<bar>"
proof -
  have "(0::real) < 2 ^ k" by simp
  with assms show ?thesis by linarith
qed

lemma floor_log2_eq:
  assumes "(2::real) ^ k \<le> \<bar>x\<bar>" and "\<bar>x\<bar> < 2 ^ Suc k"
  shows "\<lfloor>log 2 \<bar>x\<bar>\<rfloor> = int k"
proof -
  have pos: "0 < \<bar>x\<bar>" by (rule abs_pos_of_pow_le [OF assms(1)])
  have c0: "real_of_int (int k) = real k" by simp
  have p1: "(2::real) powr real_of_int (int k) = 2 ^ k"
    unfolding c0 by (rule powr_realpow) simp
  have c: "real_of_int (int k + 1) = real (Suc k)" by simp
  have p2: "(2::real) powr real_of_int (int k + 1) = 2 ^ Suc k"
    unfolding c by (rule powr_realpow) simp
  have b: "2 powr real_of_int (int k) \<le> \<bar>x\<bar> \<and> \<bar>x\<bar> < 2 powr real_of_int (int k + 1)"
    unfolding p1 p2 using assms by blast
  have "(\<lfloor>log 2 \<bar>x\<bar>\<rfloor> = int k) =
          (2 powr real_of_int (int k) \<le> \<bar>x\<bar> \<and> \<bar>x\<bar> < 2 powr real_of_int (int k + 1))"
    by (rule floor_log_eq_powr_iff [OF pos]) simp
  with b show ?thesis by blast
qed

lemma fl64_large:
  assumes "(2::real) ^ k \<le> \<bar>x\<bar>" and "\<bar>x\<bar> < 2 ^ Suc k" and "52 \<le> k"
    and "of_int (round_ties_even (x / 2 ^ (k - 52))) * 2 ^ (k - 52) = y"
  shows "fl64 x = y"
proof -
  have nz: "x \<noteq> 0" using abs_pos_of_pow_le [OF assms(1)] by auto
  have c: "real_of_int (int k - 52) = real (k - 52)" using assms(3) by simp
  have u: "(2::real) powr real_of_int (int k - 52) = 2 ^ (k - 52)"
    unfolding c by (rule powr_realpow) simp
  have "fl64 x = of_int (round_ties_even (x / 2 ^ (k - 52))) * 2 ^ (k - 52)"
    unfolding fl64_def Let_def floor_log2_eq [OF assms(1,2)] u using nz by simp
  with assms(4) show ?thesis by simp
qed

lemma fl64_small:
  assumes "(2::real) ^ k \<le> \<bar>x\<bar>" and "\<bar>x\<bar> < 2 ^ Suc k" and "k \<le> 52"
    and "of_int (round_ties_even (x * 2 ^ (52 - k))) / 2 ^ (52 - k) = y"
  shows "fl64 x = y"
proof -
  have nz: "x \<noteq> 0" using abs_pos_of_pow_le [OF assms(1)] by auto
  have c: "real_of_int (int k - 52) = - real (52 - k)" using assms(3) by simp
  have "(2::real) powr real (52 - k) = 2 ^ (52 - k)" by (rule powr_realpow) simp
  then have u: "(2::real) powr real_of_int (int k - 52) = inverse (2 ^ (52 - k))"
    unfolding c by (simp only: powr_minus)
  have "fl64 x = of_int (round_ties_even (x / inverse (2 ^ (52 - k)))) * inverse (2 ^ (52 - k))"
    unfolding fl64_def Let_def floor_log2_eq [OF assms(1,2)] u using nz by simp
  also have "\<dots> = of_int (round_ties_even (x * 2 ^ (52 - k))) / 2 ^ (52 - k)"
    by (simp only: divide_inverse inverse_inverse_eq)
  finally show ?thesis using assms(4) by simp
qed

lemma fl64_zero: "fl64 0 = 0"
  by (simp add: fl64_def)

lemma fl64_at_1: "fl64 1704067200000 = 1704067200000"
  by (rule fl64_small [where k = 40]) (simp_all add: round_ties_even_def Let_def)

lemma fl64_at_2: "fl64 3408134402000 = 3408134402000"
  by (rule fl64_small [where k = 41]) (simp_all add: round_ties_even_def Let_def)

lemma fl64_at_3: "fl64 1 = 1"
  by (rule fl64_small [where k = 0]) (simp_all add: round_ties_even_def Let_def)

lemma fl64_at_4: "fl64 1704067202000 = 1704067202000"
  by (rule fl64_small [where k = 40]) (simp_all add: round_ties_even_def Let_def)

lemma fl64_at_5: "fl64 2903845022115840000000000 = 2903845022115840258998272"
  by (rule fl64_large [where k = 81]) (simp_all add: round_ties_even_def Let_def)

lemma fl64_at_6: "fl64 2903845022115840258998272 = 2903845022115840258998272"
  by (rule fl64_large [where k = 81]) (simp_all add: round_ties_even_def Let_def)

lemma fl64_at_7: "fl64 2903845028932108804000000 = 2903845028932109050314752"
  by (rule fl64_large [where k = 81]) (simp_all add: round_ties_even_def Let_def)

lemma fl64_at_8: "fl64 5807690051047949309313024 = 5807690051047949309313024"
  by (rule fl64_large [where k = 82]) (simp_all add: round_ties_even_def Let_def)

lemma fl64_at_9: "fl64 3408134404000 = 3408134404000"
  by (rule fl64_small [where k = 41]) (simp_all add: round_ties_even_def Let_def)

lemma fl64_at_10: "fl64 2000 = 2000"
  by (rule fl64_small [where k = 10]) (simp_all add: round_ties_even_def Let_def)

lemma fl64_at_11: "fl64 11615380102095898618626048 = 11615380102095898618626048"
  by (rule fl64_large [where k = 83]) (simp_all add: round_ties_even_def Let_def)

lemma fl64_at_12: "fl64 11615380102095897604000000 = 11615380102095898618626048"
  by (rule fl64_large [where k = 83]) (simp_all add: round_ties_even_def Let_def)

lemmas fl64_facts = fl64_zero fl64_at_1 fl64_at_2 fl64_at_3 fl64_at_4 fl64_at_5 fl64_at_6
  fl64_at_7 fl64_at_8 fl64_at_9 fl64_at_10 fl64_at_11 fl64_at_12

lemma regressionSlope_two_seconds:
  "regressionSlope [1704067200000, 1704067202000] [0, 1] = PosInf"
  by (simp add: regressionSlope_def Let_def fl_div_def fl64_facts)

lemma fallback_inherited_key:
  "generateDynamicFallbackData ''toString'' random1 random2 = Inl TypeError
   \<and> generateDynamicFallbackData ''salinity'' random1 random2 = Inr None"
  by (simp add: generateDynamicFallbackData_def baseData_def objectPrototypeKeys_def)

section \<open>Properties of the summary\<close>

text \<open>
  C1. The claim: whenever one of the five responses has an empty data array, the summary
  is withheld (none), and no value is computed as NaN from a division by a zero count.
  The memo does not do this: its guard lets an empty array pass. For every SST response
  whose data array is empty, and four responses of any content, a summary is built; its
  sea surface temperature has the value NaN (from \<open>0 / 0\<close>), the risk low and the trend
  stable.
\<close>

theorem empty_sst_data_summary:
  "\<exists>s. useOceanographicSummary now bbox (Some (sstData\<lparr>data := []\<rparr>)) (Some seaLevelData)
          (Some chlorophyllData) (Some windData) (Some rainfallData) = Some s
       \<and> TrendedParameter.value (seaSurfaceTemperature (OceanographicSummary.parameters s)) = NaN
       \<and> TrendedParameter.risk (seaSurfaceTemperature (OceanographicSummary.parameters s)) = Low
       \<and> TrendedParameter.trend (seaSurfaceTemperature (OceanographicSummary.parameters s)) = Stable"
  by (simp add: useOceanographicSummary_def buildSummary_def Let_def sstAvg_def js_div_def
      sstRisk_def dataTrend_def)

text \<open>
  C2. The claim: an SST mean of exactly 28.0 is tiered medium, exactly 30.0 medium, and
  every mean above 30 high. The code compares with \<open>>\<close> at both thresholds: a single
  observation of 28 (mean 28) is tiered low; 30 is tiered medium and 30.01 high.
\<close>

theorem sst_risk_at_boundaries:
  "sstRisk (sstAvg [\<lparr>OceanDataPoint.timestamp = 0, OceanDataPoint.value = 28\<rparr>]) = Low
   \<and> sstRisk (sstAvg [\<lparr>OceanDataPoint.timestamp = 0, OceanDataPoint.value = 30\<rparr>]) = Medium
   \<and> sstRisk (sstAvg [\<lparr>OceanDataPoint.timestamp = 0, OceanDataPoint.value = 30.01\<rparr>]) = High"
  by (simp add: sstRisk_def sstAvg_def js_div_def)

text \<open>
  C5, as amended. The trend of the SST and sea-level entries is stable when the series
  has fewer than 2 observations. With 2 or more observations it is increasing exactly
  when the last value is strictly greater than the first, and it is decreasing when the
  last value is strictly less than the first.
\<close>

theorem data_trend_cases:
  "(length d < 2 \<longrightarrow> dataTrend d = Stable)
   \<and> (length d \<ge> 2 \<longrightarrow>
        (dataTrend d = Increasing \<longleftrightarrow> OceanDataPoint.value (last d) > OceanDataPoint.value (hd d))
        \<and> (OceanDataPoint.value (last d) < OceanDataPoint.value (hd d) \<longrightarrow> dataTrend d = Decreasing))"
proof (cases "length d < 2")
  case True
  then show ?thesis by (simp add: dataTrend_def)
next
  case False
  then have ne: "d \<noteq> []" by auto
  have l: "d ! (length d - Suc 0) = last d" using ne by (simp add: last_conv_nth)
  have h: "d ! 0 = hd d" using ne by (simp add: hd_conv_nth)
  from False show ?thesis by (auto simp add: dataTrend_def l h)
qed

theorem data_trend_cases_witness:
  "dataTrend [] = Stable
   \<and> dataTrend [\<lparr>OceanDataPoint.timestamp = 0, OceanDataPoint.value = 1\<rparr>,
                 \<lparr>OceanDataPoint.timestamp = 1, OceanDataPoint.value = 2\<rparr>] = Increasing
   \<and> dataTrend [\<lparr>OceanDataPoint.timestamp = 0, OceanDataPoint.value = 2\<rparr>,
                 \<lparr>OceanDataPoint.timestamp = 1, OceanDataPoint.value = 1\<rparr>] = Decreasing"
  using data_trend_cases [of "[]"]
    data_trend_cases [of "[\<lparr>OceanDataPoint.timestamp = 0, OceanDataPoint.value = 1\<rparr>,
                 \<lparr>OceanDataPoint.timestamp = 1, OceanDataPoint.value = 2\<rparr>]"]
    data_trend_cases [of "[\<lparr>OceanDataPoint.timestamp = 0, OceanDataPoint.value = 2\<rparr>,
                 \<lparr>OceanDataPoint.timestamp = 1, OceanDataPoint.value = 1\<rparr>]"]
  by simp

text \<open>
  The claim C5 as it is written fails twice: a series of 2 observations that rises is
  increasing, not stable; and a series of 3 observations whose last value equals its
  first is decreasing, not stable.
\<close>

theorem data_trend_counterexample:
  "dataTrend [\<lparr>OceanDataPoint.timestamp = 0, OceanDataPoint.value = 1\<rparr>,
              \<lparr>OceanDataPoint.timestamp = 1, OceanDataPoint.value = 2\<rparr>] \<noteq> Stable
   \<and> dataTrend [\<lparr>OceanDataPoint.timestamp = 0, OceanDataPoint.value = 5\<rparr>,
                \<lparr>OceanDataPoint.timestamp = 1, OceanDataPoint.value = 7\<rparr>,
                \<lparr>OceanDataPoint.timestamp = 2, OceanDataPoint.value = 5\<rparr>] = Decreasing"
  by (simp add: dataTrend_def)



text \<open>
  C9. In every summary that is built, the overall risk is a function of the number of
  the five per-parameter risks that are high: 3, 4 or 5 give high, 1 or 2 give medium
  and 0 gives low.
\<close>

theorem overall_risk_by_high_count:
  assumes "useOceanographicSummary now bbox sstData seaLevelData chlorophyllData windData
             rainfallData = Some s"
  shows "let k = count_list
                   [TrendedParameter.risk (seaSurfaceTemperature (OceanographicSummary.parameters s)),
                    TrendedParameter.risk (Parameters.seaLevel (OceanographicSummary.parameters s)),
                    ChlorophyllParameter.risk (Parameters.chlorophyll (OceanographicSummary.parameters s)),
                    WindParameter.risk (Parameters.wind (OceanographicSummary.parameters s)),
                    RainfallParameter.risk (Parameters.rainfall (OceanographicSummary.parameters s))]
                   High
         in k \<le> 5
            \<and> (k > 2 \<longrightarrow> overallRisk s = High)
            \<and> (k = 1 \<or> k = 2 \<longrightarrow> overallRisk s = Medium)
            \<and> (k = 0 \<longrightarrow> overallRisk s = Low)"
proof -
  from useOceanographicSummary_Some [OF assms]
  obtain bb a b c d e where s: "s = buildSummary now bb a b c d e" by blast
  show ?thesis
    unfolding s Let_def buildSummary_overallRisk overallRiskOf_count
    by (simp del: count_list.simps add: order.trans [OF count_le_length])
qed

theorem overall_risk_by_high_count_witness:
  "let md = \<lparr> totalCount = 1, Metadata.timeRange = (''2024-01-01'', ''2024-01-02''),
              spatialCoverage = \<lparr> SpatialCoverage.boundingBox = (18, 72, 20, 75),
                                  resolution = ''1km'' \<rparr>,
              Metadata.dataQuality = \<lparr> completeness = 0.95, accuracy = 0.92 \<rparr> \<rparr>
   in map_option overallRisk
        (useOceanographicSummary ''2024-01-02'' None
           (Some \<lparr> data = [\<lparr>OceanDataPoint.timestamp = 0, OceanDataPoint.value = 31\<rparr>],
                   EarthdataResponse.metadata = md, error = None \<rparr>)
           (Some \<lparr> data = [\<lparr>OceanDataPoint.timestamp = 0, OceanDataPoint.value = 0.6\<rparr>],
                   EarthdataResponse.metadata = md, error = None \<rparr>)
           (Some \<lparr> data = [\<lparr>OceanDataPoint.timestamp = 0, OceanDataPoint.value = 0.2,
                            ChlorophyllData.bloomRisk = Low\<rparr>],
                   EarthdataResponse.metadata = md, error = None \<rparr>)
           (Some \<lparr> data = [\<lparr>OceanDataPoint.timestamp = 0, OceanDataPoint.value = 5,
                            WindData.direction = 90, WindData.speed = 5\<rparr>],
                   EarthdataResponse.metadata = md, error = None \<rparr>)
           (Some \<lparr> data = [\<lparr>OceanDataPoint.timestamp = 0, OceanDataPoint.value = 1,
                            RainfallData.intensity = Light, accumulation = 1\<rparr>],
                   EarthdataResponse.metadata = md, error = None \<rparr>))
      = Some Medium"
proof -
  define md where "md = \<lparr> totalCount = 1, Metadata.timeRange = (''2024-01-01'', ''2024-01-02''),
              spatialCoverage = \<lparr> SpatialCoverage.boundingBox = (18, 72, 20, 75),
                                  resolution = ''1km'' \<rparr>,
              Metadata.dataQuality = \<lparr> completeness = 0.95, accuracy = 0.92 \<rparr> \<rparr>"
  define a where "a = \<lparr> data = [\<lparr>OceanDataPoint.timestamp = 0, OceanDataPoint.value = 31\<rparr>],
                   EarthdataResponse.metadata = md, error = None \<rparr>"
  define b where "b = \<lparr> data = [\<lparr>OceanDataPoint.timestamp = 0, OceanDataPoint.value = 0.6\<rparr>],
                   EarthdataResponse.metadata = md, error = None \<rparr>"
  define c where "c = \<lparr> data = [\<lparr>OceanDataPoint.timestamp = 0, OceanDataPoint.value = 0.2,
                            ChlorophyllData.bloomRisk = Low\<rparr>],
                   EarthdataResponse.metadata = md, error = None \<rparr>"
  define d where "d = \<lparr> data = [\<lparr>OceanDataPoint.timestamp = 0, OceanDataPoint.value = 5,
                            WindData.direction = 90, WindData.speed = 5\<rparr>],
                   EarthdataResponse.metadata = md, error = None \<rparr>"
  define e where "e = \<lparr> data = [\<lparr>OceanDataPoint.timestamp = 0, OceanDataPoint.value = 1,
                            RainfallData.intensity = Light, accumulation = 1\<rparr>],
                   EarthdataResponse.metadata = md, error = None \<rparr>"
  define s where "s = buildSummary ''2024-01-02'' (18, 72, 20, 75) a b c d e"
  have run: "useOceanographicSummary ''2024-01-02'' None (Some a) (Some b) (Some c) (Some d) (Some e)
               = Some s"
    by (simp add: useOceanographicSummary_def s_def)
  have r1: "TrendedParameter.risk (seaSurfaceTemperature (OceanographicSummary.parameters s)) = High"
    by (simp add: s_def buildSummary_def Let_def a_def sstAvg_def sstRisk_def js_div_def)
  have r2: "TrendedParameter.risk (Parameters.seaLevel (OceanographicSummary.parameters s)) = High"
    by (simp add: s_def buildSummary_def Let_def b_def seaLevelAvg_def seaLevelRisk_def js_div_def)
  have r3: "ChlorophyllParameter.risk (Parameters.chlorophyll (OceanographicSummary.parameters s)) = Low"
    by (simp add: s_def buildSummary_def Let_def c_def chlorophyllAvg_def chlorophyllRisk_def js_div_def)
  have r4: "WindParameter.risk (Parameters.wind (OceanographicSummary.parameters s)) = Low"
    by (simp add: s_def buildSummary_def Let_def d_def windAvg_def windRisk_def js_div_def)
  have r5: "RainfallParameter.risk (Parameters.rainfall (OceanographicSummary.parameters s)) = Low"
    by (simp add: s_def buildSummary_def Let_def e_def rainfallTotal_def rainfallRisk_def)
  from overall_risk_by_high_count [OF run] have "overallRisk s = Medium"
    by (simp add: r1 r2 r3 r4 r5 Let_def)
  with run show ?thesis
    by (simp add: Let_def a_def b_def c_def d_def e_def md_def)
qed

section \<open>Properties of the threat assessment\<close>

text \<open>
  C7. For every summary, the threat score is the sum of the independent deltas (25 for
  SST, 30 for sea level, 20 for chlorophyll, 15 for wind, 20 for rainfall, each counted
  when that risk is high), and the factor and recommendation lists hold exactly the
  entries of the high-risk parameters, in the order SST, sea level, chlorophyll, wind,
  rainfall. In particular SST, sea level and wind high with chlorophyll and rainfall low
  scores 70.
\<close>

theorem threat_score_additive:
  "\<exists>a. useCoastalThreatAssessment (Some s) = Some a \<and>
     (let ps = OceanographicSummary.parameters s;
             sstHigh = (TrendedParameter.risk (seaSurfaceTemperature ps) = High);
             seaHigh = (TrendedParameter.risk (Parameters.seaLevel ps) = High);
             chlHigh = (ChlorophyllParameter.risk (Parameters.chlorophyll ps) = High);
             windHigh = (WindParameter.risk (Parameters.wind ps) = High);
             rainHigh = (RainfallParameter.risk (Parameters.rainfall ps) = High)
         in threatScore a =
              (if sstHigh then 25 else 0) + (if seaHigh then 30 else 0)
              + (if chlHigh then 20 else 0) + (if windHigh then 15 else 0)
              + (if rainHigh then 20 else 0)
            \<and> threatFactors a =
              (if sstHigh then [''Elevated sea surface temperature''] else [])
              @ (if seaHigh then [''Abnormal sea level variations''] else [])
              @ (if chlHigh then [''High chlorophyll concentration''] else [])
              @ (if windHigh then [''High wind speeds''] else [])
              @ (if rainHigh then [''Heavy rainfall''] else [])
            \<and> recommendations a =
              (if sstHigh then [''Monitor for coral bleaching and marine heat waves''] else [])
              @ (if seaHigh then [''Prepare for potential coastal flooding''] else [])
              @ (if chlHigh then [''Monitor for harmful algal blooms''] else [])
              @ (if windHigh then [''Prepare for storm conditions''] else [])
              @ (if rainHigh then [''Monitor for runoff and water quality issues''] else [])
            \<and> (sstHigh \<and> seaHigh \<and> windHigh
                 \<and> ChlorophyllParameter.risk (Parameters.chlorophyll ps) = Low
                 \<and> RainfallParameter.risk (Parameters.rainfall ps) = Low
                 \<longrightarrow> threatScore a = 70))"
  (is "\<exists>a. _ \<and> ?additive a")
proof -
  obtain a where a: "useCoastalThreatAssessment (Some s) = Some a"
    using useCoastalThreatAssessment_defined by blast
  have "?additive a"
    unfolding Let_def useCoastalThreatAssessment_Some [OF a] threatStateOf_eq by simp
  with a show ?thesis by blast
qed

theorem threat_score_additive_witness:
  "let q = \<lparr> completeness = 0.9, accuracy = 0.9 \<rparr>;
       s = \<lparr> OceanographicSummary.timestamp = ''2024-01-02'',
             OceanographicSummary.location =
               \<lparr> Location.boundingBox = (18, 72, 20, 75), center = (19, 73.5) \<rparr>,
             OceanographicSummary.parameters = \<lparr>
               seaSurfaceTemperature = \<lparr> TrendedParameter.value = Num 31,
                 TrendedParameter.unit = ''C'', TrendedParameter.risk = High,
                 TrendedParameter.trend = Stable \<rparr>,
               Parameters.seaLevel = \<lparr> TrendedParameter.value = Num 0.6,
                 TrendedParameter.unit = ''m'', TrendedParameter.risk = High,
                 TrendedParameter.trend = Stable \<rparr>,
               Parameters.chlorophyll = \<lparr> ChlorophyllParameter.value = Num 0.2,
                 ChlorophyllParameter.unit = ''mg/m3'', ChlorophyllParameter.risk = Low,
                 ChlorophyllParameter.bloomRisk = Low \<rparr>,
               Parameters.wind = \<lparr> WindParameter.speed = Num 16,
                 WindParameter.unit = ''m/s'', WindParameter.risk = High,
                 WindParameter.direction = 90 \<rparr>,
               Parameters.rainfall = \<lparr> total = Num 1, RainfallParameter.unit = ''mm'',
                 RainfallParameter.risk = Low, RainfallParameter.intensity = Light \<rparr> \<rparr>,
             overallRisk = High,
             OceanographicSummary.dataQuality = \<lparr> sst = q, SummaryQuality.seaLevel = q,
               SummaryQuality.chlorophyll = q, SummaryQuality.wind = q,
               SummaryQuality.rainfall = q \<rparr> \<rparr>
   in map_option (\<lambda>a. (threatScore a, threatLevel a, threatFactors a))
        (useCoastalThreatAssessment (Some s))
      = Some (70, ThreatHigh, [''Elevated sea surface temperature'',
                ''Abnormal sea level variations'', ''High wind speeds''])"
proof -
  define q where "q = \<lparr> completeness = 0.9, accuracy = 0.9 \<rparr>"
  define s where "s = \<lparr> OceanographicSummary.timestamp = ''2024-01-02'',
             OceanographicSummary.location =
               \<lparr> Location.boundingBox = (18, 72, 20, 75), center = (19, 73.5) \<rparr>,
             OceanographicSummary.parameters = \<lparr>
               seaSurfaceTemperature = \<lparr> TrendedParameter.value = Num 31,
                 TrendedParameter.unit = ''C'', TrendedParameter.risk = High,
                 TrendedParameter.trend = Stable \<rparr>,
               Parameters.seaLevel = \<lparr> TrendedParameter.value = Num 0.6,
                 TrendedParameter.unit = ''m'', TrendedParameter.risk = High,
                 TrendedParameter.trend = Stable \<rparr>,
               Parameters.chlorophyll = \<lparr> ChlorophyllParameter.value = Num 0.2,
                 ChlorophyllParameter.unit = ''mg/m3'', ChlorophyllParameter.risk = Low,
                 ChlorophyllParameter.bloomRisk = Low \<rparr>,
               Parameters.wind = \<lparr> WindParameter.speed = Num 16,
                 WindParameter.unit = ''m/s'', WindParameter.risk = High,
                 WindParameter.direction = 90 \<rparr>,
               Parameters.rainfall = \<lparr> total = Num 1, RainfallParameter.unit = ''mm'',
                 RainfallParameter.risk = Low, RainfallParameter.intensity = Light \<rparr> \<rparr>,
             overallRisk = High,
             OceanographicSummary.dataQuality = \<lparr> sst = q, SummaryQuality.seaLevel = q,
               SummaryQuality.chlorophyll = q, SummaryQuality.wind = q,
               SummaryQuality.rainfall = q \<rparr> \<rparr>"
  from threat_score_additive [of s]
  obtain a where a: "useCoastalThreatAssessment (Some s) = Some a"
    and sc: "threatScore a = 70
        \<and> threatFactors a = [''Elevated sea surface temperature'',
                ''Abnormal sea level variations'', ''High wind speeds'']"
    by (auto simp add: Let_def s_def)
  have lvl: "threatLevel a = threatLevelOf (threatScore a)"
    using a by (auto simp add: useCoastalThreatAssessment_def split: prod.splits)
  with sc have "(threatScore a, threatLevel a, threatFactors a)
      = (70, ThreatHigh, [''Elevated sea surface temperature'',
                ''Abnormal sea level variations'', ''High wind speeds''])"
    by (simp add: threatLevelOf_def)
  with a show ?thesis
    unfolding Let_def s_def [symmetric, unfolded q_def] by simp
qed

text \<open>
  C8. The threat level follows from the score by descending thresholds: at least 80 is
  critical, otherwise at least 60 is high, otherwise at least 30 is medium, otherwise
  low. The score is not clamped: five high risks score 110, which is critical. A score
  of 0 gives the level low and empty factor and recommendation lists.
\<close>

theorem threat_level_thresholds:
  "\<exists>a. useCoastalThreatAssessment (Some s) = Some a \<and>
       (threatScore a \<ge> 80 \<longrightarrow> threatLevel a = ThreatCritical)
       \<and> (60 \<le> threatScore a \<and> threatScore a < 80 \<longrightarrow> threatLevel a = ThreatHigh)
       \<and> (30 \<le> threatScore a \<and> threatScore a < 60 \<longrightarrow> threatLevel a = ThreatMedium)
       \<and> (threatScore a < 30 \<longrightarrow> threatLevel a = ThreatLow)
       \<and> (TrendedParameter.risk (seaSurfaceTemperature (OceanographicSummary.parameters s)) = High
           \<and> TrendedParameter.risk (Parameters.seaLevel (OceanographicSummary.parameters s)) = High
           \<and> ChlorophyllParameter.risk (Parameters.chlorophyll (OceanographicSummary.parameters s)) = High
           \<and> WindParameter.risk (Parameters.wind (OceanographicSummary.parameters s)) = High
           \<and> RainfallParameter.risk (Parameters.rainfall (OceanographicSummary.parameters s)) = High
           \<longrightarrow> threatScore a = 110 \<and> threatLevel a = ThreatCritical)
       \<and> (threatScore a = 0 \<longrightarrow>
            threatLevel a = ThreatLow \<and> threatFactors a = [] \<and> recommendations a = [])"
proof -
  obtain a where a: "useCoastalThreatAssessment (Some s) = Some a"
    using useCoastalThreatAssessment_defined by blast
  note eqs = useCoastalThreatAssessment_Some [OF a]
  have lvl: "threatLevel a = threatLevelOf (threatScore a)" by (rule eqs(4))
  have bands: "(threatScore a \<ge> 80 \<longrightarrow> threatLevel a = ThreatCritical)
       \<and> (60 \<le> threatScore a \<and> threatScore a < 80 \<longrightarrow> threatLevel a = ThreatHigh)
       \<and> (30 \<le> threatScore a \<and> threatScore a < 60 \<longrightarrow> threatLevel a = ThreatMedium)
       \<and> (threatScore a < 30 \<longrightarrow> threatLevel a = ThreatLow)"
    unfolding lvl by (simp add: threatLevelOf_def)
  have all5: "TrendedParameter.risk (seaSurfaceTemperature (OceanographicSummary.parameters s)) = High
           \<and> TrendedParameter.risk (Parameters.seaLevel (OceanographicSummary.parameters s)) = High
           \<and> ChlorophyllParameter.risk (Parameters.chlorophyll (OceanographicSummary.parameters s)) = High
           \<and> WindParameter.risk (Parameters.wind (OceanographicSummary.parameters s)) = High
           \<and> RainfallParameter.risk (Parameters.rainfall (OceanographicSummary.parameters s)) = High
           \<longrightarrow> threatScore a = 110 \<and> threatLevel a = ThreatCritical"
    unfolding lvl unfolding eqs(1) threatStateOf_eq by (simp add: threatLevelOf_def)
  have zero: "threatScore a = 0 \<longrightarrow>
            threatLevel a = ThreatLow \<and> threatFactors a = [] \<and> recommendations a = []"
    unfolding lvl unfolding eqs(1,2,3) threatStateOf_eq
    by (simp add: threatLevelOf_def split: if_splits)
  from a bands all5 zero show ?thesis by blast
qed

theorem threat_level_thresholds_witness:
  "let q = \<lparr> completeness = 0.9, accuracy = 0.9 \<rparr>;
       summary = (\<lambda>r. \<lparr> OceanographicSummary.timestamp = ''2024-01-02'',
             OceanographicSummary.location =
               \<lparr> Location.boundingBox = (18, 72, 20, 75), center = (19, 73.5) \<rparr>,
             OceanographicSummary.parameters = \<lparr>
               seaSurfaceTemperature = \<lparr> TrendedParameter.value = Num 27,
                 TrendedParameter.unit = ''C'', TrendedParameter.risk = r,
                 TrendedParameter.trend = Stable \<rparr>,
               Parameters.seaLevel = \<lparr> TrendedParameter.value = Num 0.1,
                 TrendedParameter.unit = ''m'', TrendedParameter.risk = r,
                 TrendedParameter.trend = Stable \<rparr>,
               Parameters.chlorophyll = \<lparr> ChlorophyllParameter.value = Num 0.2,
                 ChlorophyllParameter.unit = ''mg/m3'', ChlorophyllParameter.risk = r,
                 ChlorophyllParameter.bloomRisk = Low \<rparr>,
               Parameters.wind = \<lparr> WindParameter.speed = Num 6,
                 WindParameter.unit = ''m/s'', WindParameter.risk = r,
                 WindParameter.direction = 90 \<rparr>,
               Parameters.rainfall = \<lparr> total = Num 1, RainfallParameter.unit = ''mm'',
                 RainfallParameter.risk = r, RainfallParameter.intensity = Light \<rparr> \<rparr>,
             overallRisk = r,
             OceanographicSummary.dataQuality = \<lparr> sst = q, SummaryQuality.seaLevel = q,
               SummaryQuality.chlorophyll = q, SummaryQuality.wind = q,
               SummaryQuality.rainfall = q \<rparr> \<rparr>)
   in map_option (\<lambda>a. (threatScore a, threatLevel a))
        (useCoastalThreatAssessment (Some (summary High))) = Some (110, ThreatCritical)
      \<and> map_option (\<lambda>a. (threatScore a, threatLevel a, threatFactors a, recommendations a))
        (useCoastalThreatAssessment (Some (summary Low))) = Some (0, ThreatLow, [], [])"
proof -
  define q where "q = \<lparr> completeness = 0.9, accuracy = 0.9 \<rparr>"
  define summary where "summary = (\<lambda>r. \<lparr> OceanographicSummary.timestamp = ''2024-01-02'',
             OceanographicSummary.location =
               \<lparr> Location.boundingBox = (18, 72, 20, 75), center = (19, 73.5) \<rparr>,
             OceanographicSummary.parameters = \<lparr>
               seaSurfaceTemperature = \<lparr> TrendedParameter.value = Num 27,
                 TrendedParameter.unit = ''C'', TrendedParameter.risk = r,
                 TrendedParameter.trend = Stable \<rparr>,
               Parameters.seaLevel = \<lparr> TrendedParameter.value = Num 0.1,
                 TrendedParameter.unit = ''m'', TrendedParameter.risk = r,
                 TrendedParameter.trend = Stable \<rparr>,
               Parameters.chlorophyll = \<lparr> ChlorophyllParameter.value = Num 0.2,
                 ChlorophyllParameter.unit = ''mg/m3'', ChlorophyllParameter.risk = r,
                 ChlorophyllParameter.bloomRisk = Low \<rparr>,
               Parameters.wind = \<lparr> WindParameter.speed = Num 6,
                 WindParameter.unit = ''m/s'', WindParameter.risk = r,
                 WindParameter.direction = 90 \<rparr>,
               Parameters.rainfall = \<lparr> total = Num 1, RainfallParameter.unit = ''mm'',
                 RainfallParameter.risk = r, RainfallParameter.intensity = Light \<rparr> \<rparr>,
             overallRisk = r,
             OceanographicSummary.dataQuality = \<lparr> sst = q, SummaryQuality.seaLevel = q,
               SummaryQuality.chlorophyll = q, SummaryQuality.wind = q,
               SummaryQuality.rainfall = q \<rparr> \<rparr>)"
  from threat_level_thresholds [of "summary High"]
  obtain a where a: "useCoastalThreatAssessment (Some (summary High)) = Some a"
    and ra: "threatScore a = 110 \<and> threatLevel a = ThreatCritical"
    by (auto simp add: summary_def)
  from threat_level_thresholds [of "summary Low"]
  obtain b where b: "useCoastalThreatAssessment (Some (summary Low)) = Some b"
    and zero: "threatScore b = 0 \<longrightarrow>
      threatLevel b = ThreatLow \<and> threatFactors b = [] \<and> recommendations b = []"
    by blast
  have "threatScore b = 0"
    using b by (auto simp add: useCoastalThreatAssessment_def threatStateOf_eq summary_def)
  with zero
  have rb: "threatScore b = 0 \<and> threatLevel b = ThreatLow \<and> threatFactors b = []
            \<and> recommendations b = []"
    by simp
  show ?thesis
    using a b ra rb unfolding Let_def summary_def q_def by simp
qed

section \<open>Properties of the data provider\<close>

text \<open>
  C3, as amended. A fetch call whose dataset id is supplied (not empty) and is not in
  the registry throws the error \<open>Dataset <id> not found\<close>, in each of the five fetch
  methods: the check stands before the \<open>try\<close> block, and no response is returned. The
  result-carrying failure (an empty data array, a zeroed metadata block and the error
  string) is what a call returns when the dataset is in the registry and the generator
  throws.
\<close>

theorem unknown_dataset_throws:
  assumes "dataset params = Some ds" and "ds \<noteq> []"
  shows "(datasets ds = None \<longrightarrow>
            getSSTData datasets params gSst = Inl (Error (''Dataset '' @ ds @ '' not found''))
          \<and> getSeaLevelData datasets params gSea = Inl (Error (''Dataset '' @ ds @ '' not found''))
          \<and> getChlorophyllData datasets params gChl = Inl (Error (''Dataset '' @ ds @ '' not found''))
          \<and> getWindData datasets params gWind = Inl (Error (''Dataset '' @ ds @ '' not found''))
          \<and> getRainfallData datasets params gRain = Inl (Error (''Dataset '' @ ds @ '' not found'')))
       \<and> (datasets ds \<noteq> None \<and> gSst params = Inl e \<longrightarrow>
            (\<exists>r. getSSTData datasets params gSst = Inr r
               \<and> data r = []
               \<and> totalCount (EarthdataResponse.metadata r) = 0
               \<and> Metadata.dataQuality (EarthdataResponse.metadata r)
                    = \<lparr> completeness = 0, accuracy = 0 \<rparr>
               \<and> error r = Some (case e of Error message \<Rightarrow> message
                                  | NotAnError \<Rightarrow> ''Unknown error'')))"
proof (intro conjI impI)
  assume "datasets ds \<noteq> None \<and> gSst params = Inl e"
  then obtain info where "datasets ds = Some info" and "gSst params = Inl e" by auto
  then have "getData ''MUR_SST'' 0.95 0.92 datasets params gSst =
           Inr \<lparr> data = [],
                 EarthdataResponse.metadata = \<lparr>
                   totalCount = 0,
                   Metadata.timeRange = (startDate params, endDate params),
                   spatialCoverage = \<lparr> SpatialCoverage.boundingBox = (0, 0, 0, 0),
                                       resolution = ''unknown'' \<rparr>,
                   Metadata.dataQuality = \<lparr> completeness = 0, accuracy = 0 \<rparr> \<rparr>,
                 error = Some (case e of Error message \<Rightarrow> message
                               | NotAnError \<Rightarrow> ''Unknown error'') \<rparr>"
    using assms by (intro getData_generator_throws)
  then show "\<exists>r. getSSTData datasets params gSst = Inr r
               \<and> data r = []
               \<and> totalCount (EarthdataResponse.metadata r) = 0
               \<and> Metadata.dataQuality (EarthdataResponse.metadata r)
                    = \<lparr> completeness = 0, accuracy = 0 \<rparr>
               \<and> error r = Some (case e of Error message \<Rightarrow> message
                                  | NotAnError \<Rightarrow> ''Unknown error'')"
    by (simp add: getSSTData_def)
qed (simp_all add: getSSTData_def getSeaLevelData_def getChlorophyllData_def getWindData_def
      getRainfallData_def getData_unknown [OF assms])

theorem unknown_dataset_throws_witness:
  "getSSTData (initializeDatasets ''2024-01-02'')
     \<lparr> startDate = ''2024-01-01'', endDate = ''2024-01-02'',
       QueryParams.boundingBox = None, dataset = Some ''SST_V9'' \<rparr>
     (\<lambda>params. Inr [\<lparr>OceanDataPoint.timestamp = 0, OceanDataPoint.value = 27\<rparr>])
   = Inl (Error ''Dataset SST_V9 not found'')
   \<and> map_sum id (\<lambda>r. (data r, totalCount (EarthdataResponse.metadata r), error r))
       (getSSTData (initializeDatasets ''2024-01-02'')
          \<lparr> startDate = ''2024-01-01'', endDate = ''2024-01-02'',
            QueryParams.boundingBox = None, dataset = Some ''GHRSST_L4'' \<rparr>
          (\<lambda>params. Inl (Error ''Invalid time value'')))
     = Inr ([], 0, Some ''Invalid time value'')"
proof -
  define p1 where "p1 = \<lparr> startDate = ''2024-01-01'', endDate = ''2024-01-02'',
       QueryParams.boundingBox = None, dataset = Some ''SST_V9'' \<rparr>"
  define p2 where "p2 = \<lparr> startDate = ''2024-01-01'', endDate = ''2024-01-02'',
       QueryParams.boundingBox = None, dataset = Some ''GHRSST_L4'' \<rparr>"
  have unknown: "initializeDatasets ''2024-01-02'' ''SST_V9'' = None"
    by (simp add: initializeDatasets_def)
  have known: "initializeDatasets ''2024-01-02'' ''GHRSST_L4'' \<noteq> None"
    by (simp add: initializeDatasets_def)
  have d1: "dataset p1 = Some ''SST_V9''" and d2: "dataset p2 = Some ''GHRSST_L4''"
    by (simp_all add: p1_def p2_def)
  have a: "getSSTData (initializeDatasets ''2024-01-02'') p1
             (\<lambda>params. Inr [\<lparr>OceanDataPoint.timestamp = 0, OceanDataPoint.value = 27\<rparr>])
           = Inl (Error ''Dataset SST_V9 not found'')"
    using unknown_dataset_throws [where params = p1 and ds = "''SST_V9''"
        and datasets = "initializeDatasets ''2024-01-02''"
        and gSst = "\<lambda>params. Inr [\<lparr>OceanDataPoint.timestamp = 0, OceanDataPoint.value = 27\<rparr>]",
        OF d1] unknown
    by simp
  obtain r where r: "getSSTData (initializeDatasets ''2024-01-02'') p2
               (\<lambda>params. Inl (Error ''Invalid time value'')) = Inr r"
      "data r = []" "totalCount (EarthdataResponse.metadata r) = 0"
      "error r = Some ''Invalid time value''"
    using unknown_dataset_throws [where params = p2 and ds = "''GHRSST_L4''"
        and datasets = "initializeDatasets ''2024-01-02''"
        and gSst = "\<lambda>params. Inl (Error ''Invalid time value'')"
        and e = "Error ''Invalid time value''", OF d2] known
    by auto
  then have b: "map_sum id (\<lambda>r. (data r, totalCount (EarthdataResponse.metadata r), error r))
       (getSSTData (initializeDatasets ''2024-01-02'') p2
          (\<lambda>params. Inl (Error ''Invalid time value'')))
     = Inr ([], 0, Some ''Invalid time value'')"
    by simp
  from a b show ?thesis unfolding p1_def p2_def by simp
qed

text \<open>
  The claim C3 as it is written fails: for a dataset id that the registry does not
  hold, \<open>getSSTData\<close> throws and returns no response.
\<close>

theorem unknown_dataset_counterexample:
  "getSSTData (initializeDatasets ''2024-01-02'')
     \<lparr> startDate = ''2024-01-01'', endDate = ''2024-01-02'',
       QueryParams.boundingBox = None, dataset = Some ''NO_SUCH_SST'' \<rparr>
     (\<lambda>params. Inr [])
   = Inl (Error ''Dataset NO_SUCH_SST not found'')"
  by (simp add: getSSTData_def getData_def initializeDatasets_def)

section \<open>Properties of the trend analyzer\<close>

text \<open>
  C10. The claim: on every non-empty series the slope of the analyzer is the
  least-squares closed form \<open>(n * Sxy - Sx * Sy) / (n * Sxx - Sx * Sx)\<close> over the pairs
  (timestamp in milliseconds, value), and the trend is classified by it. The code does
  not do this. For two observations with the values 0 and 1, taken 2 seconds apart on
  2024-01-01, and every engine that accepts two arguments, the analyzer reports the
  slope \<open>Infinity\<close> and the trend increasing: the rounded divisor is 0. The closed form
  of the same series is \<open>1 / 2000\<close>, below the threshold of 0.001. And for a series
  with more observations than the engine accepts as arguments of one call, the
  analyzer throws \<open>RangeError\<close> and returns nothing.
\<close>

theorem historical_trend_failures:
  "(\<exists>r. historicalTrends (Suc (Suc argLimit)) ''sst'' window OceanDataPoint.value
          (Some \<lparr> data = [\<lparr>OceanDataPoint.timestamp = 1704067200000, OceanDataPoint.value = 0\<rparr>,
                          \<lparr>OceanDataPoint.timestamp = 1704067202000, OceanDataPoint.value = 1\<rparr>],
                  EarthdataResponse.metadata = md, error = None \<rparr>) = Inr (Some r)
        \<and> slope (statistics r) = PosInf
        \<and> Statistics.trend (statistics r) = Increasing)
   \<and> (2 * (1704067200000 * 0 + 1704067202000 * 1)
          - (1704067200000 + 1704067202000) * (0 + 1))
       / (2 * (1704067200000 * 1704067200000 + 1704067202000 * 1704067202000)
          - (1704067200000 + 1704067202000) * (1704067200000 + 1704067202000))
       = (1 / 2000 :: real)
   \<and> historicalTrends argLimit param window pointValue
         (Some (d\<lparr>data := point # replicate argLimit point\<rparr>)) = Inl RangeError"
proof (intro conjI)
  show "\<exists>r. historicalTrends (Suc (Suc argLimit)) ''sst'' window OceanDataPoint.value
          (Some \<lparr> data = [\<lparr>OceanDataPoint.timestamp = 1704067200000, OceanDataPoint.value = 0\<rparr>,
                          \<lparr>OceanDataPoint.timestamp = 1704067202000, OceanDataPoint.value = 1\<rparr>],
                  EarthdataResponse.metadata = md, error = None \<rparr>) = Inr (Some r)
        \<and> slope (statistics r) = PosInf
        \<and> Statistics.trend (statistics r) = Increasing"
    by (simp add: historicalTrends_def Let_def regressionSlope_two_seconds slopeTrend_def)
next
  show "(2 * (1704067200000 * 0 + 1704067202000 * 1)
          - (1704067200000 + 1704067202000) * (0 + 1))
       / (2 * (1704067200000 * 1704067200000 + 1704067202000 * 1704067202000)
          - (1704067200000 + 1704067202000) * (1704067200000 + 1704067202000))
       = (1 / 2000 :: real)"
    by simp
next
  show "historicalTrends argLimit param window pointValue
         (Some (d\<lparr>data := point # replicate argLimit point\<rparr>)) = Inl RangeError"
    by (simp add: historicalTrends_def Let_def)
qed

section \<open>Properties of the fallback generator\<close>

text \<open>
  C4. The claim: the fallback generator tiers a value as the summary does (SST above 30
  high, wind from 10 to 15 medium, and so on). The code does not do this. At the draw
  \<open>19 / 20\<close> the fallback SST value is 31.065: the fallback generator tiers it medium,
  the summary tiers it high. At the draw \<open>1 / 2\<close> the fallback wind value is 12.5: the
  fallback generator tiers it low, the summary tiers it medium.
\<close>

theorem fallback_risk_out_of_sync:
  "map_sum id (map_option FallbackData.risk)
     (generateDynamicFallbackData ''sst'' (19 / 20) (1 / 2)) = Inr (Some Medium)
   \<and> map_option (\<lambda>d. (clampedValue d (19 / 20), summaryRisk ''sst'' (clampedValue d (19 / 20))))
       (baseData ''sst'') = Some (31.065, High)
   \<and> map_sum id (map_option FallbackData.risk)
     (generateDynamicFallbackData ''wind'' (1 / 2) (1 / 2)) = Inr (Some Low)
   \<and> map_option (\<lambda>d. (clampedValue d (1 / 2), summaryRisk ''wind'' (clampedValue d (1 / 2))))
       (baseData ''wind'') = Some (12.5, Medium)"
  by (simp add: generateDynamicFallbackData_def baseData_def clampedValue_def dynamicRisk_def
      summaryRisk_def sstRisk_def windRisk_def Let_def)

end
